theory Spec2Isabelle
  imports Complex_Main
begin

section \<open>Hand-gesture volume control: the model of control.py\<close>

text \<open>
  The program measures the pixel distance between two fingertips and maps it to a volume
  level by linear interpolation. Python's floats are modelled by \<^typ>\<open>real\<close> and its
  unbounded integers by \<^typ>\<open>int\<close>. The camera frame is modelled by its shape and the
  sequence of drawing calls made on it; the audio endpoint by its level, its mute flag
  and the failures it reports.
\<close>

subsection \<open>Constants (lines 9-26)\<close>

type_synonym color = "int \<times> int \<times> int"
type_synonym point = "int \<times> int"

definition MIN_LENGTH :: real where "MIN_LENGTH = 50"
definition MAX_LENGTH :: real where "MAX_LENGTH = 300"
definition MIN_VOLUME :: real where "MIN_VOLUME = -21"
definition MAX_VOLUME :: real where "MAX_VOLUME = 0"
definition CIRCLE_RADIUS :: int where "CIRCLE_RADIUS = 15"
definition LINE_THICKNESS :: int where "LINE_THICKNESS = 3"
definition FONT_SIZE :: real where "FONT_SIZE = 1"
definition FONT_THICKNESS :: int where "FONT_THICKNESS = 2"
definition FONT_COLOR :: color where "FONT_COLOR = (255, 255, 255)"
definition VOLUME_BAR_COLOR_LOW :: color where "VOLUME_BAR_COLOR_LOW = (0, 255, 0)"
definition VOLUME_BAR_COLOR_HIGH :: color where "VOLUME_BAR_COLOR_HIGH = (0, 0, 255)"
definition VOLUME_BAR_COLOR_MUTE :: color where "VOLUME_BAR_COLOR_MUTE = (0, 0, 0)"
definition HAND_ICON_RADIUS :: int where "HAND_ICON_RADIUS = 30"
definition HAND_ICON_THICKNESS :: int where "HAND_ICON_THICKNESS = 2"
definition HAND_ICON_COLOR :: color where "HAND_ICON_COLOR = (255, 255, 255)"

text \<open>The values of the cv2 constants the program passes on.\<close>

definition FILLED :: int where "FILLED = -1"
definition FONT_HERSHEY_SIMPLEX :: int where "FONT_HERSHEY_SIMPLEX = 0"
definition FONT_HERSHEY_PLAIN :: int where "FONT_HERSHEY_PLAIN = 1"

subsection \<open>Library functions the program calls\<close>

text \<open>
  \<open>np.interp(x, [x0, x1], [f0, f1])\<close> on two sample points, the only form the program
  uses (the two list literals are the two pairs). numpy returns the last value right of
  the samples, the first value left of them, the sample's value at a sample point, and
  \<open>slope * (x - x0) + f0\<close> in between.
\<close>

definition interp :: "real \<Rightarrow> real \<times> real \<Rightarrow> real \<times> real \<Rightarrow> real" where
  "interp x xp fp =
     (let x0 = fst xp; x1 = snd xp; f0 = fst fp; f1 = snd fp in
      if x > x1 then f1
      else if x < x0 then f0
      else if x = x1 then f1
      else if x = x0 then f0
      else (f1 - f0) / (x1 - x0) * (x - x0) + f0)"

text \<open>\<open>int(r)\<close> on a float: truncation towards zero.\<close>

definition py_int :: "real \<Rightarrow> int" where
  "py_int r = (if 0 \<le> r then \<lfloor>r\<rfloor> else \<lceil>r\<rceil>)"

text \<open>\<open>math.hypot(a, b)\<close> on two integers.\<close>

definition hypot :: "int \<Rightarrow> int \<Rightarrow> real" where
  "hypot a b = sqrt ((of_int a)\<^sup>2 + (of_int b)\<^sup>2)"

text \<open>\<open>str(n)\<close> on an integer, as the f-string of the percentage label formats it.\<close>

fun str_nat :: "nat \<Rightarrow> string" where
  "str_nat n =
     (if n < 10 then [''0123456789'' ! n]
      else str_nat (n div 10) @ [''0123456789'' ! (n mod 10)])"

declare str_nat.simps [simp del]

definition str_int :: "int \<Rightarrow> string" where
  "str_int i = (if i < 0 then CHR ''-'' # str_nat (nat (- i)) else str_nat (nat i))"

subsection \<open>The frame and the drawing calls\<close>

text \<open>A landmark of the detector: normalised coordinates.\<close>

datatype landmark = Landmark (lm_x: real) (lm_y: real) (lm_z: real)

datatype draw_op =
    Circle point int color int
  | Line point point color int
  | Rectangle point point color int
  | PutText string point int real color int
  | DrawLandmarks "landmark list"

record image =
  shape :: "nat \<times> nat \<times> nat"
  ops :: "draw_op list"

definition circle :: "image \<Rightarrow> point \<Rightarrow> int \<Rightarrow> color \<Rightarrow> int \<Rightarrow> image" where
  "circle img center radius col thickness =
     img\<lparr>ops := ops img @ [Circle center radius col thickness]\<rparr>"

definition line :: "image \<Rightarrow> point \<Rightarrow> point \<Rightarrow> color \<Rightarrow> int \<Rightarrow> image" where
  "line img p q col thickness = img\<lparr>ops := ops img @ [Line p q col thickness]\<rparr>"

definition rectangle :: "image \<Rightarrow> point \<Rightarrow> point \<Rightarrow> color \<Rightarrow> int \<Rightarrow> image" where
  "rectangle img p q col thickness = img\<lparr>ops := ops img @ [Rectangle p q col thickness]\<rparr>"

definition draw_landmarks :: "image \<Rightarrow> landmark list \<Rightarrow> image" where
  "draw_landmarks img hand_landmarks = img\<lparr>ops := ops img @ [DrawLandmarks hand_landmarks]\<rparr>"

definition putText ::
  "image \<Rightarrow> string \<Rightarrow> point \<Rightarrow> int \<Rightarrow> real \<Rightarrow> color \<Rightarrow> int \<Rightarrow> image" where
  "putText img txt org font scale col thickness =
     img\<lparr>ops := ops img @ [PutText txt org font scale col thickness]\<rparr>"

subsection \<open>Exceptions and the audio endpoint\<close>

text \<open>
  The exceptions of the program. \<open>EndpointError\<close> is the failure of a call on the audio
  endpoint, with its text; it is an instance of \<open>Exception\<close>, as are the others apart
  from \<open>KeyboardInterrupt\<close>.
\<close>

datatype exn = IndexError | UnboundLocalError | CvError | EndpointError string | KeyboardInterrupt

fun is_Exception :: "exn \<Rightarrow> bool" where
  "is_Exception KeyboardInterrupt = False"
| "is_Exception _ = True"

text \<open>
  \<open>str(e)\<close>, as the handler of lines 91-92 formats it. Only a failure of the endpoint
  is raised inside the \<open>try\<close> block; the text of the other exceptions is left empty.
\<close>

fun exn_str :: "exn \<Rightarrow> string" where
  "exn_str (EndpointError msg) = msg"
| "exn_str e = ''''"

record endpoint =
  level :: real
  mute :: bool
  set_error :: "real \<Rightarrow> string option"
  mute_error :: "string option"

definition SetMasterVolumeLevel :: "endpoint \<Rightarrow> real \<Rightarrow> exn + endpoint" where
  "SetMasterVolumeLevel volume v =
     (case set_error volume v of
        Some msg \<Rightarrow> Inl (EndpointError msg)
      | None \<Rightarrow> Inr (volume\<lparr>level := v\<rparr>))"

definition GetMute :: "endpoint \<Rightarrow> exn + bool" where
  "GetMute volume =
     (case mute_error volume of
        Some msg \<Rightarrow> Inl (EndpointError msg)
      | None \<Rightarrow> Inr (mute volume))"

subsection \<open>The three maps of the distance (lines 28-38)\<close>

definition calculate_volume :: "real \<Rightarrow> real" where
  "calculate_volume len = interp len (MIN_LENGTH, MAX_LENGTH) (MIN_VOLUME, MAX_VOLUME)"

definition calculate_volume_bar :: "real \<Rightarrow> real" where
  "calculate_volume_bar len = interp len (MIN_LENGTH, MAX_LENGTH) (600, 10)"

definition calculate_volume_percentage :: "real \<Rightarrow> real" where
  "calculate_volume_percentage len = interp len (MIN_LENGTH, MAX_LENGTH) (0, 100)"

subsection \<open>Processing one detected hand (lines 40-94)\<close>

text \<open>The loop of lines 42-46: one entry \<open>[id, cx, cy]\<close> for each landmark.\<close>

definition lm_list :: "landmark list \<Rightarrow> image \<Rightarrow> (nat \<times> int \<times> int) list" where
  "lm_list hand_landmarks img =
     map (\<lambda>(id, lm).
            (let (h, w, c) = shape img in
             (id, py_int (lm_x lm * real w), py_int (lm_y lm * real h))))
         (enumerate 0 hand_landmarks)"

text \<open>
  The flash of lines 86-89: the colour of the circle, when one is drawn.
\<close>

definition volume_change_color :: "real \<Rightarrow> color" where
  "volume_change_color volume_level = (if volume_level > 0 then (0, 255, 0) else (0, 0, 255))"

text \<open>
  Lines 68-89, after both calls on the endpoint have returned: the bar, the label, the
  instructions and the flash. \<open>c\<close> is the pair \<open>(cx, cy)\<close> the loop of lines 42-46 left.
\<close>

definition draw_overlay :: "image \<Rightarrow> real \<Rightarrow> bool \<Rightarrow> point \<Rightarrow> image" where
  "draw_overlay img len volume_mute c =
     (let volume_level = calculate_volume len;
          volBar = calculate_volume_bar len;
          volPer = calculate_volume_percentage len;
          vol_color = (if volume_mute then VOLUME_BAR_COLOR_MUTE
                       else if volume_level < 0 then VOLUME_BAR_COLOR_LOW
                       else VOLUME_BAR_COLOR_HIGH);
          img = rectangle img (50, 150) (85, 400) vol_color LINE_THICKNESS;
          img = rectangle img (50, py_int volBar) (85, 400) vol_color FILLED;
          img = putText img (str_int (py_int volPer) @ ''%'') (40, 450)
                  FONT_HERSHEY_PLAIN FONT_SIZE FONT_COLOR FONT_THICKNESS;
          img = putText img ''Spread your fingers to adjust volume.'' (20, 30)
                  FONT_HERSHEY_SIMPLEX 0.7 FONT_COLOR 2;
          img = putText img ''Bring fingertips close to mute.'' (20, 55)
                  FONT_HERSHEY_SIMPLEX 0.7 FONT_COLOR 2
      in if \<bar>volume_level\<bar> > 1.0
         then circle img c CIRCLE_RADIUS (volume_change_color volume_level) LINE_THICKNESS
         else img)"

text \<open>
  The handler of lines 91-92: an instance of \<open>Exception\<close> is printed and the function
  goes on to its return; anything else leaves the function.
\<close>

definition handle_error ::
  "exn \<Rightarrow> real \<Rightarrow> image \<Rightarrow> endpoint \<Rightarrow> exn + (real \<times> image \<times> endpoint \<times> string list)" where
  "handle_error e len img volume =
     (if is_Exception e
      then Inr (len, img, volume, [''Error updating volume: '' @ exn_str e])
      else Inl e)"

text \<open>
  The function returns the measured distance, the frame as drawn on, the endpoint as
  left, and the lines printed. With no landmark the name \<open>length\<close> is unbound at the
  return; with fewer than nine the indexing of lines 49-50 fails.
\<close>

definition process_hand_landmarks ::
  "landmark list \<Rightarrow> image \<Rightarrow> endpoint \<Rightarrow> exn + (real \<times> image \<times> endpoint \<times> string list)" where
  "process_hand_landmarks hand_landmarks img volume =
     (let lmList = lm_list hand_landmarks img in
      if lmList = [] then Inl UnboundLocalError
      else if length lmList \<le> 4 then Inl IndexError
      else if length lmList \<le> 8 then Inl IndexError
      else
        let x1 = fst (snd (lmList ! 4)); y1 = snd (snd (lmList ! 4));
            x2 = fst (snd (lmList ! 8)); y2 = snd (snd (lmList ! 8));
            c = snd (last lmList);
            img = circle img (x1, y1) CIRCLE_RADIUS (255, 0, 0) FILLED;
            img = circle img (x2, y2) CIRCLE_RADIUS (255, 0, 0) FILLED;
            img = line img (x1, y1) (x2, y2) (255, 0, 255) LINE_THICKNESS;
            z1 = (x1 + x2) div 2; z2 = (y1 + y2) div 2;
            len = hypot (x2 - x1) (y2 - y1);
            img = (if len < MIN_LENGTH
                   then circle img (z1, z2) CIRCLE_RADIUS (255, 255, 255) FILLED
                   else img)
        in case SetMasterVolumeLevel volume (calculate_volume len) of
             Inl e \<Rightarrow> handle_error e len img volume
           | Inr volume \<Rightarrow>
               (case GetMute volume of
                  Inl e \<Rightarrow> handle_error e len img volume
                | Inr volume_mute \<Rightarrow>
                    Inr (len, draw_overlay img len volume_mute c, volume, [])))"

subsection \<open>The presentation helpers (lines 96-114)\<close>

definition volume_indicator_y :: "real \<Rightarrow> int" where
  "volume_indicator_y volume_level =
     py_int (interp volume_level (MIN_VOLUME, MAX_VOLUME) (400, 150))"

definition display_volume_indicator :: "image \<Rightarrow> real \<Rightarrow> image" where
  "display_volume_indicator img volume_level =
     (let volume_indicator_x = 40 in
      circle img (volume_indicator_x, volume_indicator_y volume_level)
        HAND_ICON_RADIUS HAND_ICON_COLOR HAND_ICON_THICKNESS)"

definition volume_message :: "real \<Rightarrow> string" where
  "volume_message volume_level =
     (if volume_level > -5 then ''Volume is high! Lower it down a bit.''
      else if volume_level > -12 then ''Volume is moderate. Enjoy your music!''
      else ''Volume is low. Turn it up for a better experience!'')"

definition display_volume_message :: "image \<Rightarrow> real \<Rightarrow> image" where
  "display_volume_message img volume_level =
     putText img (volume_message volume_level) (150, 30)
       FONT_HERSHEY_SIMPLEX 0.7 HAND_ICON_COLOR 2"

definition display_hand_icon :: "image \<Rightarrow> landmark list \<Rightarrow> image" where
  "display_hand_icon img hand_landmarks = img"

subsection \<open>The control loop (lines 116-164)\<close>

text \<open>
  What one iteration reads from the world: the frame of \<open>cap.read()\<close> (\<open>None\<close> when the
  capture fails), the hands of the detector (the empty list when it finds none), the key
  of \<open>cv2.waitKey(1)\<close>, and whether the user interrupts the program in this iteration.
\<close>

record frame_input =
  frame :: "image option"
  multi_hand_landmarks :: "landmark list list"
  key :: int
  interrupt :: bool

text \<open>
  The variables of \<open>main\<close>: \<open>length\<close>, \<open>handLms\<close> and \<open>volume\<close>, with the lines printed,
  the frames shown and whether the camera and the windows have been released.
\<close>

record main_state =
  length_px :: real
  handLms :: "landmark list option"
  volume :: endpoint
  stdout :: "string list"
  shown :: "image list"
  released :: bool

datatype outcome = Continue main_state | Break main_state | Raise exn main_state

text \<open>
  Lines 136-144: with a hand the distance is measured again and stored in \<open>length\<close>;
  with none the branch is skipped and \<open>length\<close> keeps its value.
\<close>

definition detect_hand :: "frame_input \<Rightarrow> image \<Rightarrow> main_state \<Rightarrow> exn \<times> main_state + image \<times> main_state" where
  "detect_hand inp img s =
     (if multi_hand_landmarks inp \<noteq> [] then
        let h = hd (multi_hand_landmarks inp);
            s = s\<lparr>handLms := Some h\<rparr>;
            img = draw_landmarks img h
        in case process_hand_landmarks h img (volume s) of
             Inl e \<Rightarrow> Inl (e, s)
           | Inr (len, img, vol, out) \<Rightarrow>
               Inr (img, s\<lparr>length_px := len, volume := vol, stdout := stdout s @ out\<rparr>)
      else Inr (img, s))"

text \<open>Lines 146-152: the indicator, the message and the hand icon on the frame.\<close>

definition present :: "image \<Rightarrow> main_state \<Rightarrow> image" where
  "present img s =
     (let volume_level = calculate_volume (length_px s);
          img = display_volume_indicator img volume_level;
          img = display_volume_message img volume_level
      in case handLms s of
           Some h \<Rightarrow> display_hand_icon img h
         | None \<Rightarrow> img)"

definition main_iteration :: "frame_input \<Rightarrow> main_state \<Rightarrow> outcome" where
  "main_iteration inp s =
     (if interrupt inp then Raise KeyboardInterrupt s
      else case frame inp of
        None \<Rightarrow> Raise CvError s
      | Some img \<Rightarrow>
          (case detect_hand inp img s of
             Inl (e, s) \<Rightarrow> Raise e s
           | Inr (img, s) \<Rightarrow>
               let s = s\<lparr>shown := shown s @ [present img s]\<rparr>
               in if key inp = 27 then Break s else Continue s))"

text \<open>
  The loop over the iterations the world provides; \<open>Continue\<close> at the end of the list
  says that the loop is still running.
\<close>

fun main_loop :: "frame_input list \<Rightarrow> main_state \<Rightarrow> outcome" where
  "main_loop [] s = Continue s"
| "main_loop (inp # rest) s =
     (case main_iteration inp s of
        Continue s' \<Rightarrow> main_loop rest s'
      | Break s' \<Rightarrow> Break s'
      | Raise e s' \<Rightarrow> Raise e s')"

definition main :: "endpoint \<Rightarrow> frame_input list \<Rightarrow> outcome" where
  "main speakers inputs =
     (let s = \<lparr>length_px = MAX_LENGTH, handLms = None, volume = speakers,
                stdout = [], shown = [], released = False\<rparr>
      in case main_loop inputs s of
           Continue s \<Rightarrow> Continue s
         | Break s \<Rightarrow> Break (s\<lparr>released := True\<rparr>)
         | Raise e s \<Rightarrow>
             (if e = KeyboardInterrupt
              then Break (s\<lparr>stdout := stdout s @ [''Exiting gracefully due to user interruption.''],
                             released := True\<rparr>)
              else Raise e (s\<lparr>released := True\<rparr>)))"

subsection \<open>Concrete inputs\<close>

text \<open>
  A hand of 21 landmarks with the thumb tip (landmark 4) in the corner of the frame and
  the index tip (landmark 8) at the fraction \<open>u\<close> of its width; a frame of 640 by 480
  pixels; an endpoint that never fails and one that has lost its device.
\<close>

definition hand_at :: "real \<Rightarrow> landmark list" where
  "hand_at u = replicate 8 (Landmark 0 0 0) @ [Landmark u 0 0] @ replicate 12 (Landmark 0 0 0)"

definition frame0 :: image where
  "frame0 = \<lparr>shape = (480, 640, 3), ops = []\<rparr>"

definition speakers0 :: endpoint where
  "speakers0 = \<lparr>level = 0, mute = False, set_error = (\<lambda>v. None), mute_error = None\<rparr>"

definition speakers_lost :: endpoint where
  "speakers_lost =
     \<lparr>level = 0, mute = False, set_error = (\<lambda>v. Some ''device lost''), mute_error = None\<rparr>"

definition input_hand :: "real \<Rightarrow> frame_input" where
  "input_hand u =
     \<lparr>frame = Some frame0, multi_hand_landmarks = [hand_at u], key = - 1, interrupt = False\<rparr>"

definition input_none :: frame_input where
  "input_none = \<lparr>frame = Some frame0, multi_hand_landmarks = [], key = - 1, interrupt = False\<rparr>"

definition state0 :: main_state where
  "state0 = \<lparr>length_px = MAX_LENGTH, handLms = None, volume = speakers0,
              stdout = [], shown = [], released = False\<rparr>"

section \<open>Properties\<close>

subsection \<open>The interpolation maps in closed form\<close>

lemmas consts_defs = MIN_LENGTH_def MAX_LENGTH_def MIN_VOLUME_def MAX_VOLUME_def

lemma calculate_volume_cases:
  "calculate_volume d =
     (if d \<le> 50 then - 21 else if 300 \<le> d then 0 else 21 / 250 * (d - 50) - 21)"
  by (simp add: calculate_volume_def interp_def consts_defs)

lemma calculate_volume_bar_cases:
  "calculate_volume_bar d =
     (if d \<le> 50 then 600 else if 300 \<le> d then 10 else 600 - 59 / 25 * (d - 50))"
  by (simp add: calculate_volume_bar_def interp_def consts_defs)

lemma calculate_volume_percentage_cases:
  "calculate_volume_percentage d =
     (if d \<le> 50 then 0 else if 300 \<le> d then 100 else 2 / 5 * (d - 50))"
  by (simp add: calculate_volume_percentage_def interp_def consts_defs)

lemma indicator_interp:
  "- 21 \<le> v \<Longrightarrow> v \<le> 0 \<Longrightarrow> interp v (MIN_VOLUME, MAX_VOLUME) (400, 150) = 150 - 250 / 21 * v"
  by (simp add: interp_def consts_defs field_simps)

subsection \<open>One detected hand, step by step\<close>

lemma length_lm_list: "length (lm_list hl img) = length hl"
  by (simp add: lm_list_def)

text \<open>
  With nine landmarks or more the function reaches its \<open>try\<close> block; what it returns is
  decided by the two calls on the endpoint.
\<close>

lemma process_unfold:
  assumes "8 < length hl"
  shows "process_hand_landmarks hl img vol =
    (let lmList = lm_list hl img;
         p1 = snd (lmList ! 4); p2 = snd (lmList ! 8);
         len = hypot (fst p2 - fst p1) (snd p2 - snd p1);
         img1 = img\<lparr>ops := ops img @
                  [Circle p1 CIRCLE_RADIUS (255, 0, 0) FILLED,
                   Circle p2 CIRCLE_RADIUS (255, 0, 0) FILLED,
                   Line p1 p2 (255, 0, 255) LINE_THICKNESS] @
                  (if len < MIN_LENGTH
                   then [Circle ((fst p1 + fst p2) div 2, (snd p1 + snd p2) div 2)
                           CIRCLE_RADIUS (255, 255, 255) FILLED]
                   else [])\<rparr>
     in case set_error vol (calculate_volume len) of
          Some msg \<Rightarrow> Inr (len, img1, vol, [''Error updating volume: '' @ msg])
        | None \<Rightarrow>
            (case mute_error vol of
               Some msg \<Rightarrow> Inr (len, img1, vol\<lparr>level := calculate_volume len\<rparr>,
                                 [''Error updating volume: '' @ msg])
             | None \<Rightarrow> Inr (len, draw_overlay img1 len (mute vol) (snd (last lmList)),
                             vol\<lparr>level := calculate_volume len\<rparr>, [])))"
proof -
  have n: "lm_list hl img \<noteq> []" "\<not> length (lm_list hl img) \<le> 4"
    "\<not> length (lm_list hl img) \<le> 8"
    using assms by (auto simp: length_lm_list simp flip: length_0_conv)
  show ?thesis
    unfolding process_hand_landmarks_def Let_def
    by (simp add: n SetMasterVolumeLevel_def GetMute_def handle_error_def circle_def line_def
        split: option.split)
qed

lemma process_Inr_length:
  assumes "process_hand_landmarks hl img vol = Inr r"
  shows "8 < length hl"
  using assms unfolding process_hand_landmarks_def Let_def
  by (auto simp: length_lm_list split: if_splits)

lemma ops_draw_overlay:
  "ops (draw_overlay img len m c) = ops img @
     [Rectangle (50, 150) (85, 400)
        (if m then VOLUME_BAR_COLOR_MUTE
         else if calculate_volume len < 0 then VOLUME_BAR_COLOR_LOW else VOLUME_BAR_COLOR_HIGH)
        LINE_THICKNESS,
      Rectangle (50, py_int (calculate_volume_bar len)) (85, 400)
        (if m then VOLUME_BAR_COLOR_MUTE
         else if calculate_volume len < 0 then VOLUME_BAR_COLOR_LOW else VOLUME_BAR_COLOR_HIGH)
        FILLED,
      PutText (str_int (py_int (calculate_volume_percentage len)) @ ''%'') (40, 450)
        FONT_HERSHEY_PLAIN FONT_SIZE FONT_COLOR FONT_THICKNESS,
      PutText ''Spread your fingers to adjust volume.'' (20, 30)
        FONT_HERSHEY_SIMPLEX 0.7 FONT_COLOR 2,
      PutText ''Bring fingertips close to mute.'' (20, 55)
        FONT_HERSHEY_SIMPLEX 0.7 FONT_COLOR 2] @
     (if 1 < \<bar>calculate_volume len\<bar>
      then [Circle c CIRCLE_RADIUS (volume_change_color (calculate_volume len)) LINE_THICKNESS]
      else [])"
  by (simp add: draw_overlay_def Let_def rectangle_def putText_def circle_def)

subsection \<open>The concrete hand\<close>

lemma hypot_axis: "0 \<le> a \<Longrightarrow> hypot a 0 = of_int a"
  by (simp add: hypot_def)

lemma length_hand_at: "length (hand_at u) = 21"
  by (simp add: hand_at_def)

lemma lm_list_hand_at_4:
  "shape img = (480, 640, 3) \<Longrightarrow> snd (lm_list (hand_at u) img ! 4) = (0, 0)"
  by (simp add: lm_list_def hand_at_def nth_append nth_enumerate_eq py_int_def)

lemma lm_list_hand_at_8:
  "shape img = (480, 640, 3) \<Longrightarrow> snd (lm_list (hand_at u) img ! 8) = (py_int (u * 640), 0)"
  by (simp add: lm_list_def hand_at_def nth_append nth_enumerate_eq py_int_def)

lemma lm_list_hand_at_last:
  "shape img = (480, 640, 3) \<Longrightarrow> snd (last (lm_list (hand_at u) img)) = (0, 0)"
  by (simp add: lm_list_def hand_at_def last_map enumerate_append_eq py_int_def
      last_conv_nth nth_enumerate_eq nth_append)

lemma process_hand_at:
  assumes sh: "shape img = (480, 640, 3)" and u: "0 \<le> u"
    and ok: "\<And>v. set_error vol v = None" "mute_error vol = None" "\<not> mute vol"
  shows "process_hand_landmarks (hand_at u) img vol =
    Inr (of_int (py_int (u * 640)),
         draw_overlay
           (img\<lparr>ops := ops img @
              [Circle (0, 0) CIRCLE_RADIUS (255, 0, 0) FILLED,
               Circle (py_int (u * 640), 0) CIRCLE_RADIUS (255, 0, 0) FILLED,
               Line (0, 0) (py_int (u * 640), 0) (255, 0, 255) LINE_THICKNESS] @
              (if of_int (py_int (u * 640)) < MIN_LENGTH
               then [Circle (py_int (u * 640) div 2, 0) CIRCLE_RADIUS (255, 255, 255) FILLED]
               else [])\<rparr>)
           (of_int (py_int (u * 640))) False (0, 0),
         vol\<lparr>level := calculate_volume (of_int (py_int (u * 640)))\<rparr>, [])"
proof -
  have nn: "0 \<le> py_int (u * 640)" using u by (simp add: py_int_def)
  have h: "8 < length (hand_at u)" by (simp add: length_hand_at)
  show ?thesis
    unfolding process_unfold [OF h] Let_def
    by (simp add: lm_list_hand_at_4 [OF sh] lm_list_hand_at_8 [OF sh] lm_list_hand_at_last [OF sh]
        hypot_axis [OF nn] ok)
qed

lemma process_hand_at_100:
  assumes "shape img = (480, 640, 3)"
    and ok: "\<And>v. set_error vol v = None" "mute_error vol = None" "\<not> mute vol"
  shows "\<exists>img'. process_hand_landmarks (hand_at (5 / 32)) img vol =
           Inr (100, img', vol\<lparr>level := calculate_volume 100\<rparr>, []) \<and>
         last (ops img') = Circle (0, 0) CIRCLE_RADIUS (0, 0, 255) LINE_THICKNESS \<and>
         length (ops img) < length (ops img')"
proof -
  have e: "py_int 100 = 100" by (simp add: py_int_def)
  have v: "calculate_volume 100 = - 84 / 5" by (simp add: calculate_volume_cases)
  have "process_hand_landmarks (hand_at (5 / 32)) img vol =
    Inr (100,
         draw_overlay
           (img\<lparr>ops := ops img @
              [Circle (0, 0) CIRCLE_RADIUS (255, 0, 0) FILLED,
               Circle (100, 0) CIRCLE_RADIUS (255, 0, 0) FILLED,
               Line (0, 0) (100, 0) (255, 0, 255) LINE_THICKNESS]\<rparr>)
           100 False (0, 0),
         vol\<lparr>level := calculate_volume 100\<rparr>, [])"
    using process_hand_at [OF assms(1) _ ok, of "5 / 32"] by (simp add: e MIN_LENGTH_def)
  then show ?thesis
    by (simp add: v ops_draw_overlay volume_change_color_def)
qed

lemma process_hand_at_200:
  assumes "shape img = (480, 640, 3)"
    and ok: "\<And>v. set_error vol v = None" "mute_error vol = None" "\<not> mute vol"
  shows "\<exists>img'. process_hand_landmarks (hand_at (5 / 16)) img vol =
           Inr (200, img', vol\<lparr>level := calculate_volume 200\<rparr>, []) \<and>
         last (ops img') = Circle (0, 0) CIRCLE_RADIUS (0, 0, 255) LINE_THICKNESS"
proof -
  have e: "py_int 200 = 200" by (simp add: py_int_def)
  have v: "calculate_volume 200 = - 42 / 5" by (simp add: calculate_volume_cases)
  have "process_hand_landmarks (hand_at (5 / 16)) img vol =
    Inr (200,
         draw_overlay
           (img\<lparr>ops := ops img @
              [Circle (0, 0) CIRCLE_RADIUS (255, 0, 0) FILLED,
               Circle (200, 0) CIRCLE_RADIUS (255, 0, 0) FILLED,
               Line (0, 0) (200, 0) (255, 0, 255) LINE_THICKNESS]\<rparr>)
           200 False (0, 0),
         vol\<lparr>level := calculate_volume 200\<rparr>, [])"
    using process_hand_at [OF assms(1) _ ok, of "5 / 16"] by (simp add: e MIN_LENGTH_def)
  then show ?thesis
    by (simp add: v ops_draw_overlay volume_change_color_def)
qed

lemma speakers0_ok:
  "set_error speakers0 v = None" "mute_error speakers0 = None" "\<not> mute speakers0"
  "set_error (speakers0\<lparr>level := x\<rparr>) v = None" "mute_error (speakers0\<lparr>level := x\<rparr>) = None"
  "\<not> mute (speakers0\<lparr>level := x\<rparr>)"
  by (simp_all add: speakers0_def)

lemma shape_frame0: "shape frame0 = (480, 640, 3)"
  "shape (draw_landmarks frame0 h) = (480, 640, 3)"
  by (simp_all add: frame0_def draw_landmarks_def)

subsection \<open>The control loop without a hand\<close>

lemma main_iteration_no_hand:
  assumes "multi_hand_landmarks inp = []" "frame inp = Some img" "\<not> interrupt inp"
  shows "main_iteration inp s =
    (if key inp = 27 then Break else Continue) (s\<lparr>shown := shown s @ [present img s]\<rparr>)"
  using assms by (simp add: main_iteration_def detect_hand_def)

lemma main_iteration_no_hand_keeps:
  assumes "multi_hand_landmarks inp = []" "main_iteration inp s = Continue s'"
  shows "length_px s' = length_px s \<and> handLms s' = handLms s"
  using assms
  by (auto simp: main_iteration_def detect_hand_def Let_def split: if_splits option.splits)

lemma main_loop_no_hand_keeps:
  assumes "\<forall>i \<in> set mids. multi_hand_landmarks i = []" "main_loop mids s = Continue s'"
  shows "length_px s' = length_px s \<and> handLms s' = handLms s"
  using assms
proof (induction mids arbitrary: s)
  case Nil
  then show ?case by simp
next
  case (Cons i mids)
  from Cons.prems(2) obtain s1 where
    s1: "main_iteration i s = Continue s1" and rest: "main_loop mids s1 = Continue s'"
    by (auto split: outcome.splits)
  have "length_px s1 = length_px s \<and> handLms s1 = handLms s"
    using Cons.prems(1) s1 by (intro main_iteration_no_hand_keeps) simp_all
  moreover have "length_px s' = length_px s1 \<and> handLms s' = handLms s1"
    using Cons.prems(1) rest by (intro Cons.IH) simp_all
  ultimately show ?case by simp
qed

lemma main_iteration_hand:
  assumes "multi_hand_landmarks inp = h # hs" "frame inp = Some img"
    and "process_hand_landmarks h (draw_landmarks img h) (volume s) = Inr (d, img', vol', out)"
    and "main_iteration inp s = Continue s'"
  shows "length_px s' = d \<and> handLms s' = Some h"
  using assms
  by (auto simp: main_iteration_def detect_hand_def Let_def split: if_splits)

section \<open>The claims\<close>

text \<open>
  C1. For every distance \<open>d\<close>, \<open>calculate_volume d\<close> is the clamped linear interpolation
  of \<open>d\<close> from [50, 300] to [-21, 0]: it is -21 for \<open>d \<le> 50\<close> and 0 for \<open>d \<ge> 300\<close>, and
  between the two it is the line through (50, -21) and (300, 0), of slope 21/250, which
  is strictly increasing.
\<close>

theorem calculate_volume_clamped_linear:
  "(d \<le> 50 \<longrightarrow> calculate_volume d = - 21) \<and>
   (300 \<le> d \<longrightarrow> calculate_volume d = 0) \<and>
   (50 < d \<and> d < 300 \<longrightarrow> calculate_volume d = 21 / 250 * (d - 50) - 21) \<and>
   (50 \<le> d \<and> d < e \<and> e \<le> 300 \<longrightarrow> calculate_volume d < calculate_volume e) \<and>
   21 / 250 * (50 - 50) - 21 = (- 21 :: real) \<and> 21 / 250 * (300 - 50) - 21 = (0 :: real)"
  by (simp add: calculate_volume_cases)

theorem calculate_volume_clamped_linear_witness:
  "calculate_volume 40 = - 21 \<and> calculate_volume 350 = 0 \<and>
   calculate_volume 175 = - 21 / 2 \<and> calculate_volume 100 < calculate_volume 200"
  using calculate_volume_clamped_linear [of 40 0] calculate_volume_clamped_linear [of 350 0]
    calculate_volume_clamped_linear [of 175 0] calculate_volume_clamped_linear [of 100 200]
  by simp

text \<open>
  C2. For every distance the three derived quantities stay in their ranges: the volume
  level in [-21, 0], the percentage in [0, 100] and the bar position in [10, 600]; and
  the level an endpoint has after it accepted the call of \<open>process_hand_landmarks\<close> is
  the volume level of the measured distance, hence in [-21, 0].
\<close>

theorem derived_quantities_in_range:
  "- 21 \<le> calculate_volume d \<and> calculate_volume d \<le> 0 \<and>
   0 \<le> calculate_volume_percentage d \<and> calculate_volume_percentage d \<le> 100 \<and>
   10 \<le> calculate_volume_bar d \<and> calculate_volume_bar d \<le> 600 \<and>
   (process_hand_landmarks hl img vol = Inr (len, img', vol', out) \<and>
    set_error vol (calculate_volume len) = None \<longrightarrow>
      level vol' = calculate_volume len \<and> - 21 \<le> level vol' \<and> level vol' \<le> 0)"
proof -
  have "level vol' = calculate_volume len"
    if r: "process_hand_landmarks hl img vol = Inr (len, img', vol', out)"
      and a: "set_error vol (calculate_volume len) = None"
  proof -
    have hand: "8 < length hl" using r by (rule process_Inr_length)
    show ?thesis
      using r a unfolding process_unfold [OF hand] Let_def
      by (auto split: option.splits)
  qed
  then show ?thesis
    by (simp add: calculate_volume_cases calculate_volume_bar_cases
        calculate_volume_percentage_cases)
qed

theorem derived_quantities_in_range_witness:
  "- 21 \<le> calculate_volume 100 \<and> calculate_volume 100 \<le> 0 \<and>
   0 \<le> calculate_volume_percentage 100 \<and> calculate_volume_percentage 100 \<le> 100 \<and>
   10 \<le> calculate_volume_bar 100 \<and> calculate_volume_bar 100 \<le> 600 \<and>
   (\<exists>img' vol'. process_hand_landmarks (hand_at (5 / 32)) frame0 speakers0 =
        Inr (100, img', vol', []) \<and>
      set_error speakers0 (calculate_volume 100) = None \<and>
      level vol' = - 84 / 5 \<and> - 21 \<le> level vol' \<and> level vol' \<le> 0)"
proof -
  obtain img' where
    p: "process_hand_landmarks (hand_at (5 / 32)) frame0 speakers0 =
          Inr (100, img', speakers0\<lparr>level := calculate_volume 100\<rparr>, [])"
    using process_hand_at_100 [OF shape_frame0(1) speakers0_ok(1-3)] by blast
  have v: "calculate_volume 100 = - 84 / 5" by (simp add: calculate_volume_cases)
  show ?thesis
    using derived_quantities_in_range [of 100 "hand_at (5 / 32)" frame0 speakers0 100 img'
        "speakers0\<lparr>level := calculate_volume 100\<rparr>" "[]"] p
    by (simp add: speakers0_ok v)
qed

text \<open>
  C3. An iteration of the control loop that detects no hand computes its volume level
  from the distance measured in the most recent iteration that detected one: after an
  iteration with a hand that measured \<open>d\<close> and any number of iterations without a hand,
  \<open>length\<close> is still \<open>d\<close>, and the next iteration without a hand shows the indicator and
  the message of \<open>calculate_volume d\<close>.
\<close>

theorem no_hand_holds_last_distance:
  assumes hand: "frame i1 = Some img1" "multi_hand_landmarks i1 = h # hs"
    and dist: "process_hand_landmarks h (draw_landmarks img1 h) (volume s) =
                 Inr (d, img1', vol', out)"
    and none: "\<forall>i \<in> set mids. multi_hand_landmarks i = []"
    and run: "main_loop (i1 # mids) s = Continue s2"
    and now: "frame i2 = Some img2" "multi_hand_landmarks i2 = []" "\<not> interrupt i2"
  shows "length_px s2 = d \<and>
    main_iteration i2 s2 =
      (if key i2 = 27 then Break else Continue)
        (s2\<lparr>shown := shown s2 @
           [display_volume_message (display_volume_indicator img2 (calculate_volume d))
              (calculate_volume d)]\<rparr>)"
proof -
  from run obtain s1 where
    s1: "main_iteration i1 s = Continue s1" and rest: "main_loop mids s1 = Continue s2"
    by (auto split: outcome.splits)
  have a: "length_px s1 = d \<and> handLms s1 = Some h"
    using hand(2) hand(1) dist s1 by (rule main_iteration_hand)
  have b: "length_px s2 = length_px s1 \<and> handLms s2 = handLms s1"
    using none rest by (rule main_loop_no_hand_keeps)
  have c: "present img2 s2 =
      display_volume_message (display_volume_indicator img2 (calculate_volume d))
        (calculate_volume d)"
    using a b by (simp add: present_def display_hand_icon_def Let_def)
  show ?thesis
    using a b c main_iteration_no_hand [OF now(2) now(1) now(3), of s2] by simp
qed

theorem no_hand_holds_last_distance_witness:
  "\<exists>s2. main_loop [input_hand (5 / 32), input_none] state0 = Continue s2 \<and>
     length_px s2 = 100 \<and>
     main_iteration input_none s2 =
       Continue (s2\<lparr>shown := shown s2 @
         [display_volume_message (display_volume_indicator frame0 (calculate_volume 100))
            (calculate_volume 100)]\<rparr>)"
proof -
  obtain img' where
    p: "process_hand_landmarks (hand_at (5 / 32)) (draw_landmarks frame0 (hand_at (5 / 32)))
          (volume state0) = Inr (100, img', speakers0\<lparr>level := calculate_volume 100\<rparr>, [])"
    using process_hand_at_100 [OF shape_frame0(2) speakers0_ok(1-3)]
    by (auto simp: state0_def)
  have i1: "frame (input_hand (5 / 32)) = Some frame0"
    "multi_hand_landmarks (input_hand (5 / 32)) = hand_at (5 / 32) # []"
    by (simp_all add: input_hand_def)
  have i2: "frame input_none = Some frame0" "multi_hand_landmarks input_none = []"
    "\<not> interrupt input_none" "key input_none \<noteq> 27"
    by (simp_all add: input_none_def)
  have none: "\<forall>i \<in> set [input_none]. multi_hand_landmarks i = []"
    by (simp add: i2)
  obtain s1 where s1: "main_iteration (input_hand (5 / 32)) state0 = Continue s1"
    using p by (simp add: main_iteration_def detect_hand_def input_hand_def)
  obtain s2 where s2: "main_iteration input_none s1 = Continue s2"
    by (simp add: main_iteration_no_hand [OF i2(2) i2(1) i2(3)] i2(4))
  have run: "main_loop (input_hand (5 / 32) # [input_none]) state0 = Continue s2"
    by (simp add: s1 s2)
  show ?thesis
    using no_hand_holds_last_distance [OF i1 p none run i2(1) i2(2) i2(3)] run i2(4)
    by auto
qed

text \<open>
  C4. For a frame processed with a detected hand, a failure of the endpoint, in
  \<open>SetMasterVolumeLevel\<close> or in \<open>GetMute\<close>, is caught inside \<open>process_hand_landmarks\<close>:
  the function returns normally with the measured distance, prints the line
  "Error updating volume: ..." with the text of the failure, and has drawn the
  fingertip circles, the line and the centre marker only, none of the overlay that
  follows the call.
\<close>

theorem endpoint_failure_caught:
  fixes hl :: "landmark list" and img :: image and vol :: endpoint and msg :: string
  defines "p1 \<equiv> snd (lm_list hl img ! 4)" and "p2 \<equiv> snd (lm_list hl img ! 8)"
  defines "len \<equiv> hypot (fst p2 - fst p1) (snd p2 - snd p1)"
  assumes hand: "8 < length hl"
    and fails: "set_error vol (calculate_volume len) = Some msg \<or>
                set_error vol (calculate_volume len) = None \<and> mute_error vol = Some msg"
  shows "process_hand_landmarks hl img vol =
           Inr (len,
                img\<lparr>ops := ops img @
                  [Circle p1 CIRCLE_RADIUS (255, 0, 0) FILLED,
                   Circle p2 CIRCLE_RADIUS (255, 0, 0) FILLED,
                   Line p1 p2 (255, 0, 255) LINE_THICKNESS] @
                  (if len < MIN_LENGTH
                   then [Circle ((fst p1 + fst p2) div 2, (snd p1 + snd p2) div 2)
                           CIRCLE_RADIUS (255, 255, 255) FILLED]
                   else [])\<rparr>,
                (if set_error vol (calculate_volume len) = None
                 then vol\<lparr>level := calculate_volume len\<rparr> else vol),
                [''Error updating volume: '' @ msg])"
  using fails unfolding process_unfold [OF hand] Let_def p1_def p2_def len_def
  by (auto split: option.split)

theorem endpoint_failure_caught_witness:
  "process_hand_landmarks (hand_at (5 / 32)) frame0 speakers_lost =
     Inr (100,
          frame0\<lparr>ops :=
            [Circle (0, 0) CIRCLE_RADIUS (255, 0, 0) FILLED,
             Circle (100, 0) CIRCLE_RADIUS (255, 0, 0) FILLED,
             Line (0, 0) (100, 0) (255, 0, 255) LINE_THICKNESS]\<rparr>,
          speakers_lost,
          [''Error updating volume: device lost''])"
proof -
  have h: "8 < length (hand_at (5 / 32))" by (simp add: length_hand_at)
  have e: "py_int 100 = 100" by (simp add: py_int_def)
  have f: "set_error speakers_lost v = Some ''device lost''" for v
    by (simp add: speakers_lost_def)
  have o: "ops frame0 = []" by (simp add: frame0_def)
  show ?thesis
    using endpoint_failure_caught [OF h, of speakers_lost frame0 "''device lost''"]
    by (simp add: f o e lm_list_hand_at_4 [OF shape_frame0(1)]
        lm_list_hand_at_8 [OF shape_frame0(1)] hypot_axis MIN_LENGTH_def)
qed

text \<open>
  C5, evaluated on the code. Two frames in a row with the fingertips 100 and then 200
  pixels apart: the volume level rises from -16.8 to -8.4 and its magnitude is above 1,
  and the circle the second frame ends with is red, not green.
\<close>

theorem flash_color_ignores_change:
  "\<exists>img1 img2.
     process_hand_landmarks (hand_at (5 / 32)) frame0 speakers0 =
       Inr (100, img1, speakers0\<lparr>level := calculate_volume 100\<rparr>, []) \<and>
     process_hand_landmarks (hand_at (5 / 16)) frame0 (speakers0\<lparr>level := calculate_volume 100\<rparr>) =
       Inr (200, img2, speakers0\<lparr>level := calculate_volume 200\<rparr>, []) \<and>
     calculate_volume 100 < calculate_volume 200 \<and> 1 < \<bar>calculate_volume 200\<bar> \<and>
     last (ops img2) = Circle (0, 0) CIRCLE_RADIUS (0, 0, 255) LINE_THICKNESS"
proof -
  obtain img1 where
    a: "process_hand_landmarks (hand_at (5 / 32)) frame0 speakers0 =
          Inr (100, img1, speakers0\<lparr>level := calculate_volume 100\<rparr>, [])"
    using process_hand_at_100 [OF shape_frame0(1) speakers0_ok(1-3)] by blast
  obtain img2 where
    b: "process_hand_landmarks (hand_at (5 / 16)) frame0
          (speakers0\<lparr>level := calculate_volume 100\<rparr>) =
          Inr (200, img2, speakers0\<lparr>level := calculate_volume 100, level := calculate_volume 200\<rparr>, [])"
      "last (ops img2) = Circle (0, 0) CIRCLE_RADIUS (0, 0, 255) LINE_THICKNESS"
    using process_hand_at_200 [OF shape_frame0(1) speakers0_ok(4-6)] by blast
  have c: "calculate_volume 100 < calculate_volume 200 \<and> 1 < \<bar>calculate_volume 200\<bar>"
    by (simp add: calculate_volume_cases)
  show ?thesis using a b c by auto
qed

text \<open>
  C6. On (50, 300) \<open>calculate_volume_bar\<close> is the line of slope -59/25 from 600, strictly
  decreasing; it maps the open interval (50, 300) onto the open interval between 10 and
  600, and is 600 at 50 and 10 at 300.
\<close>

theorem calculate_volume_bar_linear:
  "(50 < d \<and> d < 300 \<longrightarrow> calculate_volume_bar d = 600 - 59 / 25 * (d - 50)) \<and>
   (50 \<le> d \<and> d < e \<and> e \<le> 300 \<longrightarrow> calculate_volume_bar e < calculate_volume_bar d) \<and>
   calculate_volume_bar ` {50 <..< 300} = {10 <..< 600} \<and>
   calculate_volume_bar 50 = 600 \<and> calculate_volume_bar 300 = 10"
proof -
  have img: "calculate_volume_bar ` {50 <..< 300} = {10 <..< 600}"
  proof (rule set_eqI, rule iffI)
    fix y assume "y \<in> calculate_volume_bar ` {50 <..< 300}"
    then show "y \<in> {10 <..< 600}"
      by (auto simp: calculate_volume_bar_cases)
  next
    fix y :: real assume y: "y \<in> {10 <..< 600}"
    define x where "x = 50 + 25 / 59 * (600 - y)"
    have x: "50 < x" "x < 300" using y by (simp_all add: x_def)
    then have "calculate_volume_bar x = 600 - 59 / 25 * (x - 50)"
      by (simp add: calculate_volume_bar_cases)
    also have "\<dots> = y" unfolding x_def by argo
    finally have "calculate_volume_bar x = y" .
    with x show "y \<in> calculate_volume_bar ` {50 <..< 300}" by auto
  qed
  show ?thesis
    using img by (simp add: calculate_volume_bar_cases)
qed

theorem calculate_volume_bar_linear_witness:
  "calculate_volume_bar 100 = 482 \<and> calculate_volume_bar 200 < calculate_volume_bar 100 \<and>
   calculate_volume_bar 50 = 600 \<and> calculate_volume_bar 300 = 10"
  using calculate_volume_bar_linear [of 100 200] by simp

text \<open>
  C7. On (50, 300) \<open>calculate_volume_percentage\<close> is the line of slope 2/5 from 0, strictly
  increasing; it maps the open interval (50, 300) onto the open interval (0, 100), and is
  0 at 50 and 100 at 300.
\<close>

theorem calculate_volume_percentage_linear:
  "(50 < d \<and> d < 300 \<longrightarrow> calculate_volume_percentage d = 2 / 5 * (d - 50)) \<and>
   (50 \<le> d \<and> d < e \<and> e \<le> 300 \<longrightarrow>
      calculate_volume_percentage d < calculate_volume_percentage e) \<and>
   calculate_volume_percentage ` {50 <..< 300} = {0 <..< 100} \<and>
   calculate_volume_percentage 50 = 0 \<and> calculate_volume_percentage 300 = 100"
proof -
  have img: "calculate_volume_percentage ` {50 <..< 300} = {0 <..< 100}"
  proof (rule set_eqI, rule iffI)
    fix y assume "y \<in> calculate_volume_percentage ` {50 <..< 300}"
    then show "y \<in> {0 <..< 100}"
      by (auto simp: calculate_volume_percentage_cases)
  next
    fix y :: real assume y: "y \<in> {0 <..< 100}"
    define x where "x = 50 + 5 / 2 * y"
    have x: "50 < x" "x < 300" using y by (simp_all add: x_def)
    then have "calculate_volume_percentage x = 2 / 5 * (x - 50)"
      by (simp add: calculate_volume_percentage_cases)
    also have "\<dots> = y" unfolding x_def by argo
    finally have "calculate_volume_percentage x = y" .
    with x show "y \<in> calculate_volume_percentage ` {50 <..< 300}" by auto
  qed
  show ?thesis
    using img by (simp add: calculate_volume_percentage_cases)
qed

theorem calculate_volume_percentage_linear_witness:
  "calculate_volume_percentage 100 = 20 \<and>
   calculate_volume_percentage 100 < calculate_volume_percentage 200 \<and>
   calculate_volume_percentage 50 = 0 \<and> calculate_volume_percentage 300 = 100"
  using calculate_volume_percentage_linear [of 100 200] by simp

text \<open>
  C8, as stated, fails on the code: the position is the interpolated value truncated by
  \<open>int\<close>, and the volume levels -20.05 and -20 of [-21, 0] both give the position 388.
\<close>

theorem indicator_not_strictly_decreasing:
  "(- 21 :: real) \<le> - 401 / 20 \<and> (- 401 / 20 :: real) < - 20 \<and> (- 20 :: real) \<le> 0 \<and>
   volume_indicator_y (- 401 / 20) = 388 \<and> volume_indicator_y (- 20) = 388 \<and>
   \<not> volume_indicator_y (- 20) < volume_indicator_y (- 401 / 20)"
  by (simp add: volume_indicator_y_def interp_def py_int_def consts_defs)

text \<open>
  C8, amended. On [-21, 0] the position drawn by \<open>display_volume_indicator\<close> never
  increases with the volume level, and the interpolated value it truncates is strictly
  decreasing; the position is 400 at -21 and 150 at 0.
\<close>

theorem indicator_nonincreasing:
  "(- 21 \<le> v \<and> v < w \<and> w \<le> 0 \<longrightarrow>
      volume_indicator_y w \<le> volume_indicator_y v \<and>
      interp w (MIN_VOLUME, MAX_VOLUME) (400, 150) < interp v (MIN_VOLUME, MAX_VOLUME) (400, 150)) \<and>
   volume_indicator_y (- 21) = 400 \<and> volume_indicator_y 0 = 150 \<and>
   ops (display_volume_indicator img v) =
     ops img @
     [Circle (40, volume_indicator_y v) HAND_ICON_RADIUS HAND_ICON_COLOR HAND_ICON_THICKNESS]"
proof -
  have mono: "volume_indicator_y w \<le> volume_indicator_y v \<and>
      interp w (MIN_VOLUME, MAX_VOLUME) (400, 150) < interp v (MIN_VOLUME, MAX_VOLUME) (400, 150)"
    if "- 21 \<le> v" "v < w" "w \<le> 0"
  proof -
    have v: "interp v (MIN_VOLUME, MAX_VOLUME) (400, 150) = 150 - 250 / 21 * v"
      using that by (simp add: indicator_interp)
    have w: "interp w (MIN_VOLUME, MAX_VOLUME) (400, 150) = 150 - 250 / 21 * w"
      using that by (simp add: indicator_interp)
    have lt: "150 - 250 / 21 * w < 150 - 250 / 21 * v" using that by simp
    have nn: "0 \<le> 150 - 250 / 21 * w" using that by simp
    then have nn': "0 \<le> 150 - 250 / 21 * v" using lt by linarith
    have "\<lfloor>150 - 250 / 21 * w\<rfloor> \<le> \<lfloor>150 - 250 / 21 * v\<rfloor>"
      using lt by (intro floor_mono) simp
    then show ?thesis
      using lt nn nn' by (simp add: volume_indicator_y_def py_int_def v w)
  qed
  have ends: "volume_indicator_y (- 21) = 400 \<and> volume_indicator_y 0 = 150"
    by (simp add: volume_indicator_y_def interp_def py_int_def consts_defs)
  have draw: "ops (display_volume_indicator img v) =
     ops img @
     [Circle (40, volume_indicator_y v) HAND_ICON_RADIUS HAND_ICON_COLOR HAND_ICON_THICKNESS]"
    by (simp add: display_volume_indicator_def circle_def)
  show ?thesis using mono ends draw by blast
qed

theorem indicator_nonincreasing_witness:
  "(- 21 :: real) \<le> - 20 \<and> (- 20 :: real) < - 10 \<and> (- 10 :: real) \<le> 0 \<and>
   volume_indicator_y (- 10) \<le> volume_indicator_y (- 20) \<and>
   interp (- 10) (MIN_VOLUME, MAX_VOLUME) (400, 150) <
     interp (- 20) (MIN_VOLUME, MAX_VOLUME) (400, 150) \<and>
   volume_indicator_y (- 21) = 400 \<and> volume_indicator_y 0 = 150"
  using indicator_nonincreasing [of "- 20" "- 10" frame0] by simp

text \<open>
  C9. \<open>display_volume_message\<close> draws one of three texts, chosen by the band of the volume
  level: above -5 the "high" text, above -12 and up to -5 the "moderate" text, and up to
  -12 the "low" text. At exactly -5 it is not the "high" text and at exactly -12 it is
  not the "moderate" text.
\<close>

theorem volume_message_bands:
  "(- 5 < v \<longrightarrow> volume_message v = ''Volume is high! Lower it down a bit.'') \<and>
   (- 12 < v \<and> v \<le> - 5 \<longrightarrow> volume_message v = ''Volume is moderate. Enjoy your music!'') \<and>
   (v \<le> - 12 \<longrightarrow>
      volume_message v = ''Volume is low. Turn it up for a better experience!'') \<and>
   volume_message (- 5) \<noteq> ''Volume is high! Lower it down a bit.'' \<and>
   volume_message (- 12) \<noteq> ''Volume is moderate. Enjoy your music!'' \<and>
   ops (display_volume_message img v) =
     ops img @
     [PutText (volume_message v) (150, 30) FONT_HERSHEY_SIMPLEX 0.7 HAND_ICON_COLOR 2]"
  by (simp add: volume_message_def display_volume_message_def putText_def)

theorem volume_message_bands_witness:
  "volume_message (- 4) = ''Volume is high! Lower it down a bit.'' \<and>
   volume_message (- 8) = ''Volume is moderate. Enjoy your music!'' \<and>
   volume_message (- 15) = ''Volume is low. Turn it up for a better experience!'' \<and>
   volume_message (- 5) = ''Volume is moderate. Enjoy your music!'' \<and>
   volume_message (- 12) = ''Volume is low. Turn it up for a better experience!''"
  using volume_message_bands [of "- 4" frame0] volume_message_bands [of "- 8" frame0]
    volume_message_bands [of "- 15" frame0] volume_message_bands [of "- 5" frame0]
    volume_message_bands [of "- 12" frame0]
  by simp

text \<open>
  C10. Whatever the landmarks, the frame and the endpoint, a circle that
  \<open>process_hand_landmarks\<close> draws with the line thickness, which is the flash of lines
  86-89 (its other circles are filled), is red (0, 0, 255): it is drawn only when the
  volume level has magnitude above 1, and the volume level is never above 0, so the green
  branch is never taken.
\<close>

theorem flash_always_red:
  assumes "process_hand_landmarks hl img vol = Inr (len, img', vol', out)"
    and "Circle p r col LINE_THICKNESS \<in> set (drop (length (ops img)) (ops img'))"
  shows "col = (0, 0, 255) \<and> 1 < \<bar>calculate_volume len\<bar> \<and> \<not> 0 < calculate_volume len \<and>
    volume_change_color (calculate_volume len) = (0, 0, 255)"
proof -
  have hand: "8 < length hl" using assms(1) by (rule process_Inr_length)
  have le: "\<not> 0 < calculate_volume len" by (simp add: calculate_volume_cases)
  show ?thesis
    using assms le unfolding process_unfold [OF hand] Let_def
    by (auto simp: ops_draw_overlay volume_change_color_def LINE_THICKNESS_def FILLED_def
        split: option.splits if_splits)
qed

theorem flash_always_red_witness:
  "\<exists>img' vol'.
     process_hand_landmarks (hand_at (5 / 32)) frame0 speakers0 = Inr (100, img', vol', []) \<and>
     Circle (0, 0) CIRCLE_RADIUS (0, 0, 255) LINE_THICKNESS
       \<in> set (drop (length (ops frame0)) (ops img')) \<and>
     1 < \<bar>calculate_volume 100\<bar> \<and> \<not> 0 < calculate_volume 100"
proof -
  obtain img' where
    p: "process_hand_landmarks (hand_at (5 / 32)) frame0 speakers0 =
          Inr (100, img', speakers0\<lparr>level := calculate_volume 100\<rparr>, [])"
    and l: "last (ops img') = Circle (0, 0) CIRCLE_RADIUS (0, 0, 255) LINE_THICKNESS"
    and n: "length (ops frame0) < length (ops img')"
    using process_hand_at_100 [OF shape_frame0(1) speakers0_ok(1-3)] by blast
  have ne: "drop (length (ops frame0)) (ops img') \<noteq> []" using n by simp
  have "last (drop (length (ops frame0)) (ops img')) = last (ops img')"
    using n by simp
  then have m: "Circle (0, 0) CIRCLE_RADIUS (0, 0, 255) LINE_THICKNESS
      \<in> set (drop (length (ops frame0)) (ops img'))"
    using last_in_set [OF ne] l by simp
  show ?thesis
    using flash_always_red [OF p m] p m by blast
qed

end
